theory Spec2Isabelle
  imports Main "HOL-Library.Word"
begin

section \<open>Machine types of the Go source\<close>

text \<open>
  Fixed-width integers are words, so conversions and additions wrap as in Go.
  Go's \<open>int\<close> is taken at 64 bits (the width on the platforms dcrdata is built for);
  the explorer only copies values of that type. A \<open>float64\<close> is carried as its
  IEEE-754 bit pattern: the code modelled here copies floats and never computes with
  them, and the zero value \<open>0.0\<close> is the pattern \<open>0\<close>.
  Field selectors keep the names of the Go fields; a name that occurs in several structs
  is written qualified by its struct, as in \<open>BlockBasic.Height\<close>.
  A pointer argument is modelled by the struct it points to: a nil argument, on which the
  source panics at its first field access, is not an input of the model.
\<close>

type_synonym int32 = "32 word"
type_synonym int64 = "64 word"
type_synonym uint8 = "8 word"
type_synonym uint16 = "16 word"
type_synonym uint32 = "32 word"
type_synonym uint64 = "64 word"
type_synonym go_int = "64 word"
type_synonym float64 = "64 word"

text \<open>Go's \<open>error\<close> interface; a nil error is \<open>None\<close>.\<close>

datatype error = Error string

section \<open>explorertypes.go\<close>

record BlockBasic =
  Height :: int64
  Size :: int32
  Valid :: bool
  Voters :: uint16
  Transactions :: go_int
  FreshStake :: uint8
  Revocations :: uint32
  BlockTime :: int64
  FormattedTime :: string
  FormattedBytes :: string

record AddressTx =
  TxID :: string
  InOutID :: uint32
  FormattedSize :: string
  Total :: float64
  Confirmations :: uint64
  Time :: int64
  FormattedTime :: string
  ReceivedTotal :: float64
  SentTotal :: float64

record BlockValidation =
  Hash :: string
  Height :: int64
  Validity :: bool

text \<open>
  \<open>txhelpers.VoteChoice\<close> belongs to another package; a choice is carried as a string
  naming it.
\<close>

type_synonym VoteChoice = string

record VoteInfo =
  Validation :: BlockValidation
  Version :: uint32
  Bits :: uint16
  Choices :: "VoteChoice list"
  TicketSpent :: string
  MempoolTicketIndex :: go_int

record AddressBalance =
  Address :: string
  NumSpent :: int64
  NumUnspent :: int64
  TotalSpent :: int64
  TotalUnspent :: int64

text \<open>\<open>dcrutil.Amount\<close> is an \<open>int64\<close> number of atoms.\<close>

record AddressInfo =
  Address :: string
  MaxTxLimit :: int64
  Fullmode :: bool
  Path :: string
  Limit :: int64
  Offset :: int64
  TxnType :: string
  NumUnconfirmed :: int64
  Transactions :: "AddressTx list"
  TxnsFunding :: "AddressTx list"
  TxnsSpending :: "AddressTx list"
  NumTransactions :: int64
  NumFundingTxns :: int64
  NumSpendingTxns :: int64
  AmountReceived :: int64
  AmountSent :: int64
  AmountUnspent :: int64
  Balance :: "AddressBalance option"
  KnownTransactions :: int64
  KnownFundingTxns :: int64
  KnownSpendingTxns :: int64

record BlockSubsidy =
  Total :: int64
  PoW :: int64
  PoS :: int64
  Dev :: int64

record ChainParams =
  WindowSize :: int64
  RewardWindowSize :: int64
  TargetPoolSize :: int64
  BlockTime :: int64

record TicketPoolInfo =
  Size :: uint32
  Value :: float64
  ValAvg :: float64
  Percentage :: float64
  Target :: uint16
  PercentTarget :: float64

record HomeInfo =
  CoinSupply :: int64
  StakeDiff :: float64
  IdxBlockInWindow :: go_int
  IdxInRewardWindow :: go_int
  Difficulty :: float64
  DevFund :: int64
  DevAddress :: string
  TicketROI :: float64
  ROIPeriod :: string
  NBlockSubsidy :: BlockSubsidy
  Params :: ChainParams
  PoolInfo :: TicketPoolInfo

record MempoolTx =
  Hash :: string
  Time :: int64
  Size :: int32
  TotalOut :: float64
  Type :: string
  VoteInfo :: "VoteInfo option"

record MempoolShort =
  LastBlockHeight :: int64
  LastBlockTime :: int64
  TotalOut :: float64
  TotalSize :: int32
  NumTickets :: go_int
  NumVotes :: go_int
  NumRegular :: go_int
  NumRevokes :: go_int
  NumAll :: go_int
  LatestTransactions :: "MempoolTx list"
  FormattedTotalSize :: string
  TicketIndexes :: "string \<rightharpoonup> go_int"

text \<open>
  \<open>MempoolInfo\<close> embeds \<open>MempoolShort\<close>, which a record extension expresses. The
  embedded \<open>sync.RWMutex\<close> is the mutex \<open>MempoolDataMtx\<close> below.
\<close>

record MempoolInfo = MempoolShort +
  Transactions :: "MempoolTx list"
  Tickets :: "MempoolTx list"
  Votes :: "MempoolTx list"
  Revocations :: "MempoolTx list"

section \<open>Types declared outside the files at hand\<close>

text \<open>
  Modelled from the spec: the structs of packages \<open>blockdata\<close>, \<open>mempool\<close> and
  \<open>dbtypes\<close> and of the libraries \<open>chaincfg\<close> and \<open>dcrjson\<close> are not among the
  source files. Each record lists the fields the explorer reads, under the names it reads
  them by; the spec's ChainSummary names what they stand for (height, size, voter, ticket
  and revocation counts, timestamp, display strings, coin supply, stake difficulty, window
  index, difficulty, subsidy, chain parameters). \<open>Voters\<close>, \<open>FreshStake\<close>,
  \<open>TxLen\<close>, \<open>Time\<close> and \<open>FormattedTime\<close> are assigned without conversion, which fixes
  their types; \<open>Height\<close>, \<open>Size\<close> and \<open>Revocations\<close> are converted and are taken
  as unsigned. Fields the explorer never reads live in the records' extension slot.
\<close>

record BlockExplorerBasic =
  Height :: uint32
  Size :: uint32
  Voters :: uint16
  Revocations :: uint16
  FreshStake :: uint8
  TxLen :: go_int
  Time :: int64
  FormattedTime :: string

record GetBlockSubsidyResult =
  Developer :: int64
  PoS :: int64
  PoW :: int64
  Total :: int64

record BlockExplorerExtraInfo =
  CoinSupply :: int64
  NextBlockSubsidy :: GetBlockSubsidyResult

record GetStakeDifficultyResult =
  CurrentStakeDifficulty :: float64

record GetBlockHeaderVerboseResult =
  Difficulty :: float64

record BlockData =
  Header :: GetBlockHeaderVerboseResult
  ExtraInfo :: BlockExplorerExtraInfo
  CurrentStakeDiff :: GetStakeDifficultyResult
  IdxBlockInWindow :: go_int

record MempoolData =
  NumTickets :: go_int

text \<open>
  \<open>chaincfg.Params\<close>: the stake-difficulty window that \<open>Store\<close> reads, and the
  three parameters that the other fields of the explorer's \<open>ChainParams\<close> are named
  after (reward window, target pool size, target block time in nanoseconds).
\<close>

record chaincfg_Params =
  StakeDiffWindowSize :: int64
  SubsidyReductionInterval :: int64
  TicketPoolSize :: uint16
  TargetTimePerBlock :: int64

record AddressRow =
  Address :: string
  FundingTxHash :: string
  FundingTxVoutIndex :: uint32
  Value :: uint64
  SpendingTxHash :: string
  SpendingTxVinIndex :: uint32

section \<open>The explorer's shared state and the hub's control channel\<close>

text \<open>
  Modelled from the spec: the hub's signal constants are declared with the websocket hub,
  which is not among the source files; the spec's event kinds are NewBlock and
  MempoolUpdate, and the constants carry no payload.
\<close>

datatype hubSignal = sigNewBlock | sigMempoolUpdate

text \<open>
  Modelled from the spec: the struct \<open>WebsocketHub\<close> is not among the source files.
  \<open>HubRelay\<close> is the channel the producers send on, the spec's control channel; the
  list holds the signals sent so far, oldest first. The other fields follow the spec's
  EventHub: whether the hub has been stopped, the registry of subscriber handles, and the
  next handle to hand out.
\<close>

record WebsocketHub =
  HubRelay :: "hubSignal list"
  closed :: bool
  registry :: "nat list"
  nextHandle :: nat

text \<open>
  The fields of \<open>explorerUI\<close> that \<open>Store\<close> and \<open>StoreMPData\<close> touch. The pointers
  \<open>NewBlockData\<close> and \<open>ExtraInfo\<close> are nil until the first block is stored;
  \<open>MempoolData\<close>, \<open>ChainParams\<close> and \<open>wsHub\<close> are set by \<open>New\<close>. Router,
  data sources and templates are presentation plumbing and left out.
\<close>

record explorerUI =
  NewBlockData :: "BlockBasic option"
  ExtraInfo :: "HomeInfo option"
  MempoolData :: MempoolInfo
  ChainParams :: chaincfg_Params
  wsHub :: WebsocketHub

text \<open>
  The two guards: \<open>exp.NewBlockDataMtx\<close> and the \<open>sync.RWMutex\<close> embedded in
  \<open>*exp.MempoolData\<close>. \<open>Lock\<close>/\<open>Unlock\<close> take and release a mutex exclusively,
  \<open>RLock\<close>/\<open>RUnlock\<close> take and release it shared.
\<close>

datatype mutex = NewBlockDataMtx | MempoolDataMtx

datatype lockMode = Exclusive | Shared

text \<open>
  The statements of the two producer entry points. A call runs in one goroutine; its
  configuration is the explorer state it acts on and the locks the call itself holds at
  that moment. Waiting for a mutex or for the channel is scheduling and not part of the
  configuration: a statement is described by what is true once it has completed.
\<close>

datatype stmt =
    Lock mutex
  | Unlock mutex
  | RLock mutex
  | RUnlock mutex
  | SetNewBlockData BlockBasic
  | SetExtraInfo HomeInfo
  | SetMempoolNumTickets go_int
  | Send hubSignal

record goroutine =
  ui :: explorerUI
  held :: "(mutex \<times> lockMode) list"

fun exec :: "stmt \<Rightarrow> goroutine \<Rightarrow> goroutine" where
  "exec (Lock m) g = g\<lparr>held := held g @ [(m, Exclusive)]\<rparr>"
| "exec (Unlock m) g = g\<lparr>held := remove1 (m, Exclusive) (held g)\<rparr>"
| "exec (RLock m) g = g\<lparr>held := held g @ [(m, Shared)]\<rparr>"
| "exec (RUnlock m) g = g\<lparr>held := remove1 (m, Shared) (held g)\<rparr>"
| "exec (SetNewBlockData b) g = g\<lparr>ui := (ui g)\<lparr>NewBlockData := Some b\<rparr>\<rparr>"
| "exec (SetExtraInfo h) g = g\<lparr>ui := (ui g)\<lparr>explorerUI.ExtraInfo := Some h\<rparr>\<rparr>"
| "exec (SetMempoolNumTickets n) g =
     g\<lparr>ui := (ui g)\<lparr>MempoolData := (MempoolData (ui g))\<lparr>MempoolShort.NumTickets := n\<rparr>\<rparr>\<rparr>"
| "exec (Send sig) g =
     g\<lparr>ui := (ui g)\<lparr>wsHub := (wsHub (ui g))\<lparr>HubRelay := HubRelay (wsHub (ui g)) @ [sig]\<rparr>\<rparr>\<rparr>"

text \<open>
  The configurations a body passes through: element \<open>i\<close> is the configuration in which
  statement number \<open>i\<close> starts, the last element the one the body ends in.
\<close>

fun trace :: "stmt list \<Rightarrow> goroutine \<Rightarrow> goroutine list" where
  "trace [] g = [g]"
| "trace (s # ss) g = g # trace ss (exec s g)"

definition run :: "stmt list \<Rightarrow> goroutine \<Rightarrow> goroutine" where
  "run body g = last (trace body g)"

definition enter :: "explorerUI \<Rightarrow> goroutine" where
  "enter exp = \<lparr>ui = exp, held = []\<rparr>"

text \<open>Which statements write the mempool record, which the chain summary.\<close>

fun writesMempool :: "stmt \<Rightarrow> bool" where
  "writesMempool (SetMempoolNumTickets n) = True"
| "writesMempool s = False"

fun writesChainSummary :: "stmt \<Rightarrow> bool" where
  "writesChainSummary (SetNewBlockData b) = True"
| "writesChainSummary (SetExtraInfo h) = True"
| "writesChainSummary s = False"

fun isSend :: "stmt \<Rightarrow> bool" where
  "isSend (Send sig) = True"
| "isSend s = False"

text \<open>The mutexes a body acquires, in either mode.\<close>

fun acquires :: "stmt \<Rightarrow> mutex list" where
  "acquires (Lock m) = [m]"
| "acquires (RLock m) = [m]"
| "acquires s = []"

section \<open>Store\<close>

text \<open>
  \<open>humanize.Bytes\<close> (library go-humanize) and the method
  \<open>ToBlockExplorerSummary\<close> (package \<open>blockdata\<close>) are not among the source files
  and are parameters of the model. The \<open>BlockBasic\<close> literal of \<open>Store\<close> names nine
  fields; \<open>Valid\<close> is not among them and keeps Go's zero value.
\<close>

definition newBlockData :: "(uint64 \<Rightarrow> string) \<Rightarrow> BlockExplorerBasic \<Rightarrow> BlockBasic" where
  "newBlockData humanizeBytes bData =
     \<lparr> BlockBasic.Height = ucast (BlockExplorerBasic.Height bData),
       BlockBasic.Size = ucast (BlockExplorerBasic.Size bData),
       Valid = False,
       BlockBasic.Voters = BlockExplorerBasic.Voters bData,
       BlockBasic.Transactions = TxLen bData,
       BlockBasic.FreshStake = BlockExplorerBasic.FreshStake bData,
       BlockBasic.Revocations = ucast (BlockExplorerBasic.Revocations bData),
       BlockBasic.BlockTime = BlockExplorerBasic.Time bData,
       BlockBasic.FormattedTime = BlockExplorerBasic.FormattedTime bData,
       FormattedBytes = humanizeBytes (ucast (BlockExplorerBasic.Size bData)) \<rparr>"

text \<open>
  The \<open>HomeInfo\<close> literal of \<open>Store\<close> names \<open>CoinSupply\<close>, \<open>StakeDiff\<close>,
  \<open>IdxBlockInWindow\<close>, \<open>Difficulty\<close>, \<open>NBlockSubsidy\<close> and \<open>Params\<close>, and of
  \<open>Params\<close> only \<open>WindowSize\<close>; every other field keeps its zero value.
\<close>

definition newExtraInfo :: "chaincfg_Params \<Rightarrow> 'a BlockData_scheme \<Rightarrow> HomeInfo" where
  "newExtraInfo params blockData =
     \<lparr> HomeInfo.CoinSupply = BlockExplorerExtraInfo.CoinSupply (BlockData.ExtraInfo blockData),
       StakeDiff = CurrentStakeDifficulty (CurrentStakeDiff blockData),
       HomeInfo.IdxBlockInWindow = BlockData.IdxBlockInWindow blockData,
       IdxInRewardWindow = 0,
       HomeInfo.Difficulty = GetBlockHeaderVerboseResult.Difficulty (Header blockData),
       DevFund = 0,
       DevAddress = [],
       TicketROI = 0,
       ROIPeriod = [],
       NBlockSubsidy =
         \<lparr> BlockSubsidy.Total = GetBlockSubsidyResult.Total (NextBlockSubsidy (BlockData.ExtraInfo blockData)),
           BlockSubsidy.PoW = GetBlockSubsidyResult.PoW (NextBlockSubsidy (BlockData.ExtraInfo blockData)),
           BlockSubsidy.PoS = GetBlockSubsidyResult.PoS (NextBlockSubsidy (BlockData.ExtraInfo blockData)),
           Dev = Developer (NextBlockSubsidy (BlockData.ExtraInfo blockData)) \<rparr>,
       Params =
         \<lparr> WindowSize = StakeDiffWindowSize params,
           RewardWindowSize = 0,
           TargetPoolSize = 0,
           ChainParams.BlockTime = 0 \<rparr>,
       PoolInfo =
         \<lparr> TicketPoolInfo.Size = 0, Value = 0, ValAvg = 0, Percentage = 0,
           Target = 0, PercentTarget = 0 \<rparr> \<rparr>"

text \<open>The statements of \<open>Store\<close> from its first line to the channel send, in order.\<close>

definition Store_body ::
  "(uint64 \<Rightarrow> string) \<Rightarrow> ('a BlockData_scheme \<Rightarrow> BlockExplorerBasic) \<Rightarrow>
   explorerUI \<Rightarrow> 'a BlockData_scheme \<Rightarrow> stmt list" where
  "Store_body humanizeBytes ToBlockExplorerSummary exp blockData =
     [ Lock NewBlockDataMtx,
       SetNewBlockData (newBlockData humanizeBytes (ToBlockExplorerSummary blockData)),
       SetExtraInfo (newExtraInfo (explorerUI.ChainParams exp) blockData),
       Unlock NewBlockDataMtx,
       Send sigNewBlock ]"

text \<open>
  \<open>Store\<close> returns the explorer state it leaves behind and its error result. The
  second argument, the wire block, is ignored by the source.
\<close>

definition Store ::
  "(uint64 \<Rightarrow> string) \<Rightarrow> ('a BlockData_scheme \<Rightarrow> BlockExplorerBasic) \<Rightarrow>
   explorerUI \<Rightarrow> 'a BlockData_scheme \<Rightarrow> 'm \<Rightarrow> explorerUI \<times> error option" where
  "Store humanizeBytes ToBlockExplorerSummary exp blockData msgBlock =
     (ui (run (Store_body humanizeBytes ToBlockExplorerSummary exp blockData) (enter exp)), None)"

section \<open>StoreMPData\<close>

definition StoreMPData_body :: "'a MempoolData_scheme \<Rightarrow> stmt list" where
  "StoreMPData_body data =
     [ RLock MempoolDataMtx,
       SetMempoolNumTickets (MempoolData.NumTickets data),
       RUnlock MempoolDataMtx,
       Send sigMempoolUpdate ]"

definition StoreMPData ::
  "explorerUI \<Rightarrow> 'a MempoolData_scheme \<Rightarrow> 't \<Rightarrow> explorerUI \<times> error option" where
  "StoreMPData exp data timestamp = (ui (run (StoreMPData_body data) (enter exp)), None)"

section \<open>The websocket hub\<close>









section \<open>ReduceAddressHistory\<close>

text \<open>
  The locals of the loop. \<open>received\<close> and \<open>sent\<close> are \<open>int64\<close>, so the sums wrap.
  The slices hold pointers to the \<open>AddressTx\<close> values; the model holds the values.
\<close>

record reduceVars =
  received :: int64
  sent :: int64
  transactions :: "AddressTx list"
  creditTxns :: "AddressTx list"
  debitTxns :: "AddressTx list"

text \<open>
  \<open>dcrutil.Amount.ToCoin\<close> (library dcrutil) divides by \<open>1e8\<close> in floating point; it is a
  parameter. \<open>dcrutil.Amount(addrOut.Value)\<close> and \<open>int64(addrOut.Value)\<close> reinterpret
  the 64 bits of the unsigned value.
\<close>

fun reduceRows ::
  "(int64 \<Rightarrow> float64) \<Rightarrow> 'a AddressRow_scheme list \<Rightarrow> reduceVars \<Rightarrow> reduceVars" where
  "reduceRows ToCoin [] v = v"
| "reduceRows ToCoin (addrOut # rest) v =
     (let coin = ToCoin (Value addrOut);
          fundingTx =
            \<lparr> TxID = FundingTxHash addrOut, InOutID = FundingTxVoutIndex addrOut,
              FormattedSize = [], AddressTx.Total = 0, Confirmations = 0, AddressTx.Time = 0,
              AddressTx.FormattedTime = [], ReceivedTotal = coin, SentTotal = 0 \<rparr>;
          v1 = v\<lparr> received := received v + Value addrOut,
                  transactions := transactions v @ [fundingTx],
                  creditTxns := creditTxns v @ [fundingTx] \<rparr>
      in if SpendingTxHash addrOut = [] then reduceRows ToCoin rest v1
         else
           let spendingTx =
                 \<lparr> TxID = SpendingTxHash addrOut, InOutID = SpendingTxVinIndex addrOut,
                   FormattedSize = [], AddressTx.Total = 0, Confirmations = 0,
                   AddressTx.Time = 0, AddressTx.FormattedTime = [], ReceivedTotal = 0,
                   SentTotal = coin \<rparr>;
               v2 = v1\<lparr> sent := sent v1 + Value addrOut,
                        transactions := transactions v1 @ [spendingTx],
                        debitTxns := debitTxns v1 @ [spendingTx] \<rparr>
           in reduceRows ToCoin rest v2)"

definition ReduceAddressHistory ::
  "(int64 \<Rightarrow> float64) \<Rightarrow> 'a AddressRow_scheme list \<Rightarrow> AddressInfo option" where
  "ReduceAddressHistory ToCoin addrHist =
     (case addrHist of
        [] \<Rightarrow> None
      | first # _ \<Rightarrow>
          let v = reduceRows ToCoin addrHist
                    \<lparr> received = 0, sent = 0, transactions = [], creditTxns = [],
                      debitTxns = [] \<rparr>
          in Some
            \<lparr> AddressInfo.Address = AddressRow.Address first,
              MaxTxLimit = 0, Fullmode = False, Path = [], Limit = 0, Offset = 0,
              TxnType = [], NumUnconfirmed = 0,
              AddressInfo.Transactions = transactions v,
              TxnsFunding = creditTxns v,
              TxnsSpending = debitTxns v,
              NumTransactions = 0,
              NumFundingTxns = of_nat (length (creditTxns v)),
              NumSpendingTxns = of_nat (length (debitTxns v)),
              AmountReceived = received v,
              AmountSent = sent v,
              AmountUnspent = received v - sent v,
              Balance = None,
              KnownTransactions = 0, KnownFundingTxns = 0, KnownSpendingTxns = 0 \<rparr>)"

text \<open>The rows whose outpoint has been spent: those with a non-empty \<open>SpendingTxHash\<close>.\<close>

definition spentRows :: "'a AddressRow_scheme list \<Rightarrow> 'a AddressRow_scheme list" where
  "spentRows rows = filter (\<lambda>r. SpendingTxHash r \<noteq> []) rows"

section \<open>Concrete inputs\<close>

text \<open>
  The explorer as \<open>New\<close> leaves it on mainnet parameters: no block stored yet, a
  zero-valued mempool record, a running hub without subscribers.
\<close>

definition mainNetParams :: chaincfg_Params where
  "mainNetParams =
     \<lparr> StakeDiffWindowSize = 144, SubsidyReductionInterval = 6144, TicketPoolSize = 8192,
       TargetTimePerBlock = 300000000000 \<rparr>"

definition emptyMempool :: MempoolInfo where
  "emptyMempool =
     \<lparr> LastBlockHeight = 0, LastBlockTime = 0, MempoolShort.TotalOut = 0, TotalSize = 0,
       MempoolShort.NumTickets = 0, NumVotes = 0, NumRegular = 0, NumRevokes = 0, NumAll = 0,
       LatestTransactions = [], FormattedTotalSize = [], TicketIndexes = Map.empty,
       MempoolInfo.Transactions = [], Tickets = [], Votes = [],
       MempoolInfo.Revocations = [] \<rparr>"

definition newHub :: WebsocketHub where
  "newHub = \<lparr> HubRelay = [], closed = False, registry = [], nextHandle = 0 \<rparr>"

definition newExplorer :: explorerUI where
  "newExplorer =
     \<lparr> NewBlockData = None, explorerUI.ExtraInfo = None, MempoolData = emptyMempool,
       explorerUI.ChainParams = mainNetParams, wsHub = newHub \<rparr>"

text \<open>An explorer whose mempool record already describes two votes of 600 bytes.\<close>

definition busyExplorer :: explorerUI where
  "busyExplorer =
     newExplorer\<lparr>MempoolData := emptyMempool\<lparr>TotalSize := 600, NumVotes := 2, NumAll := 2\<rparr>\<rparr>"

definition fiveTickets :: MempoolData where
  "fiveTickets = \<lparr> MempoolData.NumTickets = 5 \<rparr>"

text \<open>A block at height 100 and the summary its \<open>ToBlockExplorerSummary\<close> gives.\<close>

definition block100 :: BlockData where
  "block100 =
     \<lparr> Header = \<lparr> GetBlockHeaderVerboseResult.Difficulty = 0x4130000000000000 \<rparr>,
       BlockData.ExtraInfo =
         \<lparr> BlockExplorerExtraInfo.CoinSupply = 840000000000,
           NextBlockSubsidy =
             \<lparr> Developer = 311999999, GetBlockSubsidyResult.PoS = 935999999,
               GetBlockSubsidyResult.PoW = 1871999999,
               GetBlockSubsidyResult.Total = 3119999997 \<rparr> \<rparr>,
       CurrentStakeDiff = \<lparr> CurrentStakeDifficulty = 0x4000000000000000 \<rparr>,
       BlockData.IdxBlockInWindow = 100 \<rparr>"

definition summary100 :: BlockExplorerBasic where
  "summary100 =
     \<lparr> BlockExplorerBasic.Height = 100, BlockExplorerBasic.Size = 1200,
       BlockExplorerBasic.Voters = 5, BlockExplorerBasic.Revocations = 1,
       BlockExplorerBasic.FreshStake = 3, TxLen = 4, BlockExplorerBasic.Time = 1500000000,
       BlockExplorerBasic.FormattedTime = ''7/14/17 02:40:00'' \<rparr>"

definition summarise100 :: "BlockData \<Rightarrow> BlockExplorerBasic" where
  "summarise100 blockData = summary100"

definition kB :: "uint64 \<Rightarrow> string" where
  "kB n = ''1.2 kB''"

text \<open>One outpoint of 3 coins that was spent, one of 2 coins that was not.\<close>

definition twoRows :: "AddressRow list" where
  "twoRows =
     [ \<lparr> AddressRow.Address = ''Dsaddr'', FundingTxHash = ''f1'', FundingTxVoutIndex = 0,
         Value = 300000000, SpendingTxHash = ''s1'', SpendingTxVinIndex = 1 \<rparr>,
       \<lparr> AddressRow.Address = ''Dsaddr'', FundingTxHash = ''f2'', FundingTxVoutIndex = 2,
         Value = 200000000, SpendingTxHash = [], SpendingTxVinIndex = 0 \<rparr> ]"

text \<open>\<open>ToCoin\<close> on the two amounts above: the bit patterns of \<open>3.0\<close> and \<open>2.0\<close>.\<close>

definition coinsOf :: "int64 \<Rightarrow> float64" where
  "coinsOf a =
     (if a = 300000000 then 0x4008000000000000
      else if a = 200000000 then 0x4000000000000000 else 0)"

section \<open>Helper lemmas\<close>

text \<open>
  \<open>exec\<close> releases a lock with \<open>remove1\<close>, which would do nothing for a lock that is
  not held, where Go's runtime stops the program. Neither body gets there: each release
  finds its lock held.
\<close>

lemma Store_unlock_finds_lock:
  "Store_body hb ts exp bd ! 3 = Unlock NewBlockDataMtx \<and>
   (NewBlockDataMtx, Exclusive) \<in> set (held (trace (Store_body hb ts exp bd) (enter exp) ! 3))"
  by (simp add: Store_body_def enter_def)

lemma StoreMPData_runlock_finds_lock:
  "StoreMPData_body d ! 2 = RUnlock MempoolDataMtx \<and>
   (MempoolDataMtx, Shared) \<in> set (held (trace (StoreMPData_body d) (enter exp) ! 2))"
  by (simp add: StoreMPData_body_def enter_def)

text \<open>The final configuration is the last element of the trace, which is never empty.\<close>

lemma length_trace: "length (trace body g) = Suc (length body)"
  by (induction body arbitrary: g) simp_all

lemma run_Cons: "run (s # ss) g = run ss (exec s g)"
proof -
  have "trace ss (exec s g) \<noteq> []"
    using length_trace [of ss "exec s g"] by auto
  then show ?thesis by (simp add: run_def)
qed




text \<open>What the loop of \<open>ReduceAddressHistory\<close> adds to its three slices.\<close>

lemma reduceRows_creditTxns:
  "length (creditTxns (reduceRows tc rows v)) = length (creditTxns v) + length rows"
  by (induction rows arbitrary: v) (simp_all add: Let_def)

lemma reduceRows_debitTxns:
  "length (debitTxns (reduceRows tc rows v)) = length (debitTxns v) + length (spentRows rows)"
  by (induction rows arbitrary: v) (simp_all add: Let_def spentRows_def)

lemma reduceRows_transactions:
  "length (transactions (reduceRows tc rows v)) =
     length (transactions v) + length rows + length (spentRows rows)"
  by (induction rows arbitrary: v) (simp_all add: Let_def spentRows_def)

text \<open>\<open>int64(len(s))\<close> is exact: a length below \<open>2^63\<close> reads back from the word.\<close>

lemma sint_of_nat_small:
  assumes "n < 2 ^ 63"
  shows "sint (of_nat n :: 64 word) = int n"
proof -
  from assms have "int n < 2 ^ 63"
    by (metis of_nat_less_iff of_nat_numeral of_nat_power)
  then show ?thesis
    by (simp add: signed_of_nat signed_take_bit_int_eq_self)
qed

section \<open>The mempool producer\<close>

text \<open>
  C1 (as amended). \<open>StoreMPData\<close> does not replace the stored mempool record: it
  overwrites \<open>NumTickets\<close> with the value of \<open>data\<close> and leaves every other field of
  the record (the other counts, total value and size, the transaction lists, the ticket
  index) as it was.
\<close>

theorem StoreMPData_sets_NumTickets_only:
  "MempoolData (fst (StoreMPData exp data timestamp)) =
     (MempoolData exp)\<lparr>MempoolShort.NumTickets := MempoolData.NumTickets data\<rparr>"
  by (simp add: StoreMPData_def StoreMPData_body_def run_def enter_def)

text \<open>
  C1 as stated fails: the same \<open>data\<close> stored into two explorers leaves two different
  records, so the stored size and counts are not values derived from \<open>data\<close>. After the
  call the record still shows the 600 bytes and two votes it showed before, and the
  total count of 2 beside the five tickets just stored.
\<close>

theorem StoreMPData_keeps_stale_fields:
  "TotalSize (MempoolData (fst (StoreMPData busyExplorer fiveTickets (0 :: int64)))) = 600 \<and>
   NumVotes (MempoolData (fst (StoreMPData busyExplorer fiveTickets (0 :: int64)))) = 2 \<and>
   NumAll (MempoolData (fst (StoreMPData busyExplorer fiveTickets (0 :: int64)))) = 2 \<and>
   MempoolShort.NumTickets (MempoolData (fst (StoreMPData busyExplorer fiveTickets (0 :: int64)))) = 5 \<and>
   TotalSize (MempoolData (fst (StoreMPData newExplorer fiveTickets (0 :: int64)))) = 0 \<and>
   NumVotes (MempoolData (fst (StoreMPData newExplorer fiveTickets (0 :: int64)))) = 0"
  by (simp add: StoreMPData_def StoreMPData_body_def run_def enter_def newExplorer_def
      busyExplorer_def emptyMempool_def fiveTickets_def)

text \<open>
  C2 fails on the code. The statement of \<open>StoreMPData\<close> that writes the mempool record
  is statement 1; when it starts, the call holds the record's mutex in shared mode only,
  taken by \<open>RLock\<close>, and at no point of the body does it hold the mutex exclusively.
\<close>

theorem StoreMPData_writes_under_read_lock:
  "map writesMempool (StoreMPData_body fiveTickets) = [False, True, False, False] \<and>
   StoreMPData_body fiveTickets ! 1 = SetMempoolNumTickets 5 \<and>
   held (trace (StoreMPData_body fiveTickets) (enter newExplorer) ! 1) =
     [(MempoolDataMtx, Shared)] \<and>
   map held (trace (StoreMPData_body fiveTickets) (enter newExplorer)) =
     [[], [(MempoolDataMtx, Shared)], [(MempoolDataMtx, Shared)], [], []]"
  by (simp add: StoreMPData_body_def enter_def fiveTickets_def)

text \<open>
  C6. The value \<open>StoreMPData\<close> sends on the hub's control channel is the bare constant
  \<open>sigMempoolUpdate\<close>, whatever \<open>data\<close> holds: the body has one send, its last
  statement, and the channel gains exactly that signal. A \<open>hubSignal\<close> has no room for
  a mempool summary.
\<close>

theorem StoreMPData_sends_bare_signal:
  "filter isSend (StoreMPData_body data) = [Send sigMempoolUpdate] \<and>
   HubRelay (wsHub (fst (StoreMPData exp data timestamp))) =
     HubRelay (wsHub exp) @ [sigMempoolUpdate]"
  by (simp add: StoreMPData_def StoreMPData_body_def run_def enter_def)

section \<open>The new-block producer\<close>

text \<open>
  C3 (as amended). After \<open>Store\<close> the stored block summary carries height, size,
  voters, transaction count, fresh stake, revocations, block time and the two display
  strings of the block's explorer summary, and its validity flag is false. The stored
  \<open>ExtraInfo\<close> carries coin supply, stake difficulty, the index in the stake-difficulty
  window, difficulty and the four subsidy amounts of the block data, and the configured
  stake-difficulty window size; the index in the reward window, the other three chain
  parameters and the remaining fields are zero.
\<close>

theorem Store_stores_summary:
  "NewBlockData (fst (Store humanizeBytes ToBlockExplorerSummary exp blockData msgBlock)) =
     Some
       \<lparr> BlockBasic.Height = ucast (BlockExplorerBasic.Height (ToBlockExplorerSummary blockData)),
         BlockBasic.Size = ucast (BlockExplorerBasic.Size (ToBlockExplorerSummary blockData)),
         Valid = False,
         BlockBasic.Voters = BlockExplorerBasic.Voters (ToBlockExplorerSummary blockData),
         BlockBasic.Transactions = TxLen (ToBlockExplorerSummary blockData),
         BlockBasic.FreshStake = BlockExplorerBasic.FreshStake (ToBlockExplorerSummary blockData),
         BlockBasic.Revocations =
           ucast (BlockExplorerBasic.Revocations (ToBlockExplorerSummary blockData)),
         BlockBasic.BlockTime = BlockExplorerBasic.Time (ToBlockExplorerSummary blockData),
         BlockBasic.FormattedTime =
           BlockExplorerBasic.FormattedTime (ToBlockExplorerSummary blockData),
         FormattedBytes =
           humanizeBytes (ucast (BlockExplorerBasic.Size (ToBlockExplorerSummary blockData))) \<rparr> \<and>
   explorerUI.ExtraInfo (fst (Store humanizeBytes ToBlockExplorerSummary exp blockData msgBlock)) =
     Some
       \<lparr> HomeInfo.CoinSupply = BlockExplorerExtraInfo.CoinSupply (BlockData.ExtraInfo blockData),
         StakeDiff = CurrentStakeDifficulty (CurrentStakeDiff blockData),
         HomeInfo.IdxBlockInWindow = BlockData.IdxBlockInWindow blockData,
         IdxInRewardWindow = 0,
         HomeInfo.Difficulty = GetBlockHeaderVerboseResult.Difficulty (Header blockData),
         DevFund = 0, DevAddress = [], TicketROI = 0, ROIPeriod = [],
         NBlockSubsidy =
           \<lparr> BlockSubsidy.Total =
               GetBlockSubsidyResult.Total (NextBlockSubsidy (BlockData.ExtraInfo blockData)),
             BlockSubsidy.PoW =
               GetBlockSubsidyResult.PoW (NextBlockSubsidy (BlockData.ExtraInfo blockData)),
             BlockSubsidy.PoS =
               GetBlockSubsidyResult.PoS (NextBlockSubsidy (BlockData.ExtraInfo blockData)),
             Dev = Developer (NextBlockSubsidy (BlockData.ExtraInfo blockData)) \<rparr>,
         Params =
           \<lparr> WindowSize = StakeDiffWindowSize (explorerUI.ChainParams exp),
             RewardWindowSize = 0, TargetPoolSize = 0, ChainParams.BlockTime = 0 \<rparr>,
         PoolInfo =
           \<lparr> TicketPoolInfo.Size = 0, Value = 0, ValAvg = 0, Percentage = 0, Target = 0,
             PercentTarget = 0 \<rparr> \<rparr>"
  by (simp add: Store_def Store_body_def run_def enter_def newBlockData_def newExtraInfo_def)

text \<open>
  C3 as stated fails. On mainnet parameters (reward window 6144 blocks, target pool size
  8192, block time 300 s) and a block at height 100, the stored chain parameters show 0
  for the reward window, the target pool size and the block time, the second window
  index is 0, and the validity flag is false: none of them is taken from the block data
  or from the configured parameters.
\<close>

theorem Store_leaves_zero_fields:
  "map_option Valid
     (NewBlockData (fst (Store kB summarise100 newExplorer block100 ()))) = Some False \<and>
   map_option IdxInRewardWindow
     (explorerUI.ExtraInfo (fst (Store kB summarise100 newExplorer block100 ()))) = Some 0 \<and>
   map_option (RewardWindowSize \<circ> Params)
     (explorerUI.ExtraInfo (fst (Store kB summarise100 newExplorer block100 ()))) = Some 0 \<and>
   map_option (TargetPoolSize \<circ> Params)
     (explorerUI.ExtraInfo (fst (Store kB summarise100 newExplorer block100 ()))) = Some 0 \<and>
   map_option (ChainParams.BlockTime \<circ> Params)
     (explorerUI.ExtraInfo (fst (Store kB summarise100 newExplorer block100 ()))) = Some 0 \<and>
   SubsidyReductionInterval (explorerUI.ChainParams newExplorer) = 6144 \<and>
   TicketPoolSize (explorerUI.ChainParams newExplorer) = 8192 \<and>
   TargetTimePerBlock (explorerUI.ChainParams newExplorer) = 300000000000"
  by (simp add: Store_def Store_body_def run_def enter_def newBlockData_def newExtraInfo_def
      newExplorer_def mainNetParams_def)

text \<open>
  C5. In \<open>Store\<close> the two assignments that replace the chain summary are statements 1
  and 2 and the only send is statement 4. In the configuration in which the send starts,
  \<open>NewBlockData\<close> and \<open>ExtraInfo\<close> already have the values the call leaves behind,
  which are the new ones, and the channel does not hold the signal yet; the send then
  enqueues \<open>sigNewBlock\<close>.
\<close>

theorem Store_updates_before_send:
  "map writesChainSummary (Store_body humanizeBytes ToBlockExplorerSummary exp blockData) =
     [False, True, True, False, False] \<and>
   map isSend (Store_body humanizeBytes ToBlockExplorerSummary exp blockData) =
     [False, False, False, False, True] \<and>
   NewBlockData
     (ui (trace (Store_body humanizeBytes ToBlockExplorerSummary exp blockData) (enter exp) ! 4)) =
     Some (newBlockData humanizeBytes (ToBlockExplorerSummary blockData)) \<and>
   explorerUI.ExtraInfo
     (ui (trace (Store_body humanizeBytes ToBlockExplorerSummary exp blockData) (enter exp) ! 4)) =
     Some (newExtraInfo (explorerUI.ChainParams exp) blockData) \<and>
   NewBlockData (fst (Store humanizeBytes ToBlockExplorerSummary exp blockData msgBlock)) =
     Some (newBlockData humanizeBytes (ToBlockExplorerSummary blockData)) \<and>
   explorerUI.ExtraInfo (fst (Store humanizeBytes ToBlockExplorerSummary exp blockData msgBlock)) =
     Some (newExtraInfo (explorerUI.ChainParams exp) blockData) \<and>
   HubRelay
     (wsHub (ui (trace (Store_body humanizeBytes ToBlockExplorerSummary exp blockData) (enter exp) ! 4))) =
     HubRelay (wsHub exp) \<and>
   HubRelay (wsHub (fst (Store humanizeBytes ToBlockExplorerSummary exp blockData msgBlock))) =
     HubRelay (wsHub exp) @ [sigNewBlock]"
  by (simp add: Store_def Store_body_def run_def enter_def)

section \<open>Locks and the channel send\<close>

text \<open>
  C4. Each producer has one send, its last statement. The locks the call holds when each
  statement starts are listed below: when the send starts, and when the call ends, it
  holds none. \<open>Store\<close> has released \<open>NewBlockDataMtx\<close> and \<open>StoreMPData\<close> the
  mempool record's mutex one statement earlier.
\<close>

theorem producers_send_without_locks:
  "map isSend (Store_body humanizeBytes ToBlockExplorerSummary exp blockData) =
     [False, False, False, False, True] \<and>
   map held (trace (Store_body humanizeBytes ToBlockExplorerSummary exp blockData) (enter exp)) =
     [[], [(NewBlockDataMtx, Exclusive)], [(NewBlockDataMtx, Exclusive)],
      [(NewBlockDataMtx, Exclusive)], [], []] \<and>
   held (trace (Store_body humanizeBytes ToBlockExplorerSummary exp blockData) (enter exp) ! 4) = [] \<and>
   map isSend (StoreMPData_body data) = [False, False, False, True] \<and>
   map held (trace (StoreMPData_body data) (enter exp)) =
     [[], [(MempoolDataMtx, Shared)], [(MempoolDataMtx, Shared)], [], []] \<and>
   held (trace (StoreMPData_body data) (enter exp) ! 3) = []"
  by (simp add: Store_body_def StoreMPData_body_def enter_def)

text \<open>
  C7. The two records have different mutexes. \<open>Store\<close> acquires \<open>NewBlockDataMtx\<close>
  once and no other mutex; \<open>StoreMPData\<close> acquires the mutex embedded in the mempool
  record once and no other mutex. Neither call waits for the other record's guard.
\<close>

theorem producers_use_separate_locks:
  "NewBlockDataMtx \<noteq> MempoolDataMtx \<and>
   concat (map acquires (Store_body humanizeBytes ToBlockExplorerSummary exp blockData)) =
     [NewBlockDataMtx] \<and>
   MempoolDataMtx \<notin>
     set (concat (map acquires (Store_body humanizeBytes ToBlockExplorerSummary exp blockData))) \<and>
   concat (map acquires (StoreMPData_body data)) = [MempoolDataMtx] \<and>
   NewBlockDataMtx \<notin> set (concat (map acquires (StoreMPData_body data)))"
  by (simp add: Store_body_def StoreMPData_body_def)

text \<open>
  C9. \<open>Store\<close> and \<open>StoreMPData\<close> return a nil error for every explorer state and
  every argument.
\<close>

theorem producers_return_nil:
  "snd (Store humanizeBytes ToBlockExplorerSummary exp blockData msgBlock) = None \<and>
   snd (StoreMPData exp data timestamp) = None"
  by (simp add: Store_def StoreMPData_def)

section \<open>Stopping the hub\<close>


section \<open>Address history\<close>

text \<open>
  C10. \<open>ReduceAddressHistory\<close> returns nil exactly for the empty slice. For any other
  input it returns an \<open>AddressInfo\<close> in which \<open>AmountUnspent\<close> is \<open>AmountReceived\<close>
  minus \<open>AmountSent\<close>, \<open>NumFundingTxns\<close> is the number of rows, \<open>NumSpendingTxns\<close>
  is the number of rows with a non-empty \<open>SpendingTxHash\<close>, and \<open>Transactions\<close> has
  as many elements as the two counts together. The counts are \<open>int64\<close> conversions of
  slice lengths and read back as those lengths.
\<close>

theorem ReduceAddressHistory_counts:
  "((ReduceAddressHistory ToCoin addrHist = None) = (addrHist = [])) \<and>
   (ReduceAddressHistory ToCoin addrHist = Some info \<longrightarrow>
      AmountUnspent info = AmountReceived info - AmountSent info \<and>
      NumFundingTxns info = of_nat (length addrHist) \<and>
      NumSpendingTxns info = of_nat (length (spentRows addrHist)) \<and>
      length (AddressInfo.Transactions info) = length addrHist + length (spentRows addrHist) \<and>
      of_nat (length (AddressInfo.Transactions info)) =
        NumFundingTxns info + NumSpendingTxns info \<and>
      (length addrHist < 2 ^ 63 \<longrightarrow>
         sint (NumFundingTxns info) = int (length addrHist) \<and>
         sint (NumSpendingTxns info) = int (length (spentRows addrHist))))"
proof (cases addrHist)
  case Nil
  then show ?thesis by (simp add: ReduceAddressHistory_def)
next
  case (Cons first rest)
  have le: "length (spentRows addrHist) \<le> length addrHist"
    by (simp add: spentRows_def)
  have small: "length addrHist < 2 ^ 63 \<Longrightarrow>
      sint (of_nat (length addrHist) :: 64 word) = int (length addrHist) \<and>
      sint (of_nat (length (spentRows addrHist)) :: 64 word) = int (length (spentRows addrHist))"
    using le by (simp add: sint_of_nat_small)
  show ?thesis
    using small unfolding Cons [symmetric]
    by (auto simp add: ReduceAddressHistory_def Cons Let_def reduceRows_creditTxns
        reduceRows_debitTxns reduceRows_transactions
        simp del: reduceRows.simps split: list.split)
qed

text \<open>
  The theorem at two rows, one of them spent: the result is not nil, two funding and one
  spending transaction, three transactions in all, 5 coins received, 3 sent, 2 unspent.
\<close>

theorem ReduceAddressHistory_counts_witness:
  "twoRows \<noteq> [] \<and> ReduceAddressHistory coinsOf twoRows \<noteq> None \<and>
   map_option NumFundingTxns (ReduceAddressHistory coinsOf twoRows) = Some 2 \<and>
   map_option NumSpendingTxns (ReduceAddressHistory coinsOf twoRows) = Some 1 \<and>
   map_option (length \<circ> AddressInfo.Transactions) (ReduceAddressHistory coinsOf twoRows) =
     Some 3 \<and>
   map_option AmountReceived (ReduceAddressHistory coinsOf twoRows) = Some 500000000 \<and>
   map_option AmountSent (ReduceAddressHistory coinsOf twoRows) = Some 300000000 \<and>
   map_option AmountUnspent (ReduceAddressHistory coinsOf twoRows) = Some 200000000"
proof -
  have ne: "twoRows \<noteq> []"
    by (simp add: twoRows_def)
  with ReduceAddressHistory_counts [of coinsOf twoRows]
  obtain info where i: "ReduceAddressHistory coinsOf twoRows = Some info"
    by auto
  have amounts: "AmountReceived info = 500000000" "AmountSent info = 300000000"
    using i by (auto simp add: ReduceAddressHistory_def twoRows_def Let_def)
  have lengths: "length twoRows = 2" "length (spentRows twoRows) = 1"
    by (simp_all add: twoRows_def spentRows_def)
  from ReduceAddressHistory_counts [of coinsOf twoRows info] i lengths amounts ne
  show ?thesis by simp
qed

end
